theory Spec2Isabelle
  imports Main "HOL-Library.AList" "HOL-Library.Sublist" "HOL-Library.Char_ord"
    "HOL-Library.List_Lexorder"
begin

section \<open>Data model (package storage)\<close>

text \<open>
  A Go \<^verbatim>\<open>time.Time\<close> is an instant, counted here in nanoseconds from Go's zero time
  (January 1 of year 1, 00:00:00 UTC); \<^verbatim>\<open>IsZero\<close> holds of instant 0 only.
  \<^verbatim>\<open>After\<close> is the strict order on instants.
\<close>

type_synonym time = int

definition IsZero :: "time \<Rightarrow> bool" where
  "IsZero t = (t = 0)"

definition After :: "time \<Rightarrow> time \<Rightarrow> bool" where
  "After t u = (u < t)"

definition Second :: int where
  "Second = 1000000000"

definition Minute :: int where
  "Minute = 60 * Second"

definition Hour :: int where
  "Hour = 60 * Minute"

text \<open>\<^verbatim>\<open>ProfileState\<close> is a string type with five named constants.\<close>

type_synonym ProfileState = string

definition StateDiscovered :: ProfileState where
  "StateDiscovered = ''discovered''"

definition StateRequested :: ProfileState where
  "StateRequested = ''requested''"

definition StateAccepted :: ProfileState where
  "StateAccepted = ''accepted''"

definition StateCooledDown :: ProfileState where
  "StateCooledDown = ''cooled_down''"

definition StateRejected :: ProfileState where
  "StateRejected = ''rejected''"

record Profile =
  ID :: string
  Name :: string
  Title :: string
  Company :: string
  ProfileURL :: string
  State :: ProfileState
  DiscoveredAt :: time
  RequestedAt :: "time option"
  AcceptedAt :: "time option"
  CooledDownAt :: "time option"
  SearchQuery :: string
  Notes :: string

record Message =
  MsgID :: string
  MsgProfileID :: string
  Content :: string
  SentAt :: time
  Template :: string

record ActionLog =
  Action :: string
  Timestamp :: time
  ProfileID :: string
  Success :: bool
  Error :: string

text \<open>
  The maps of \<^verbatim>\<open>Data\<close> hold pointers. Profiles are mutated through their pointers, so
  they live in a heap of profile objects and the map holds addresses; messages are never
  changed once built and are kept by value. A Go map is iterated in an unspecified order:
  the order of the association list stands for the order of one iteration.
\<close>

type_synonym addr = nat

record Data =
  Profiles :: "(string \<times> addr) list"
  Messages :: "(string \<times> Message) list"
  ActionLogs :: "ActionLog list"
  LastSync :: time

text \<open>
  The world a run acts on: the profile objects, the in-memory \<^verbatim>\<open>Data\<close> of the one
  \<^verbatim>\<open>Storage\<close>, the clock read by \<^verbatim>\<open>time.Now\<close>, the package variable
  \<^verbatim>\<open>lastActionTime\<close> of package stealth, and what the environment decides: whether the
  n-th write of the store file succeeds (\<open>None\<close>) or fails with a message, and how long
  the n-th humanised pause lasts.
\<close>

record World =
  heap :: "addr \<Rightarrow> Profile"
  data :: Data
  clock :: time
  lastActionTime :: time
  writes :: nat
  write_result :: "nat \<Rightarrow> string option"
  pauses :: nat
  pause_ns :: "nat \<Rightarrow> nat"

text \<open>
  What the time zone database decides: local midnight of an instant
  (\<^verbatim>\<open>time.Date(y, m, d, 0, 0, 0, 0, loc)\<close>), an instant moved by a number of calendar days
  (\<^verbatim>\<open>AddDate(0, 0, n)\<close>), and the local hour and minute of an instant.
\<close>

record Location =
  startOfDay :: "time \<Rightarrow> time"
  addDays :: "time \<Rightarrow> int \<Rightarrow> time"
  wall_hm :: "time \<Rightarrow> nat \<times> nat"

definition UTC :: Location where
  "UTC = \<lparr> startOfDay = (\<lambda>t. t - t mod (24 * Hour)),
           addDays = (\<lambda>t n. t + n * (24 * Hour)),
           wall_hm = (\<lambda>t. (nat ((t mod (24 * Hour)) div Hour), nat ((t mod Hour) div Minute))) \<rparr>"

section \<open>Storage operations\<close>

text \<open>
  \<^verbatim>\<open>save\<close> stamps \<^verbatim>\<open>LastSync\<close> first and then writes the file; the write is the only
  step that fails in the model. The result is Go's \<^verbatim>\<open>error\<close>: \<open>None\<close> is \<^verbatim>\<open>nil\<close>.
\<close>

definition save :: "World \<Rightarrow> string option \<times> World" where
  "save w =
     (write_result w (writes w),
      w\<lparr>data := (data w)\<lparr>LastSync := clock w\<rparr>, writes := Suc (writes w)\<rparr>)"

definition SaveProfile :: "World \<Rightarrow> addr \<Rightarrow> string option \<times> World" where
  "SaveProfile w p =
     save (w\<lparr>data := (data w)\<lparr>Profiles := AList.update (ID (heap w p)) p (Profiles (data w))\<rparr>\<rparr>)"

definition GetProfilesByState :: "World \<Rightarrow> ProfileState \<Rightarrow> addr list" where
  "GetProfilesByState w state =
     map snd (filter (\<lambda>kp. State (heap w (snd kp)) = state) (Profiles (data w)))"

definition SaveMessage :: "World \<Rightarrow> Message \<Rightarrow> string option \<times> World" where
  "SaveMessage w message =
     save (w\<lparr>data := (data w)\<lparr>Messages := AList.update (MsgID message) message (Messages (data w))\<rparr>\<rparr>)"

definition GetMessagesByProfile :: "World \<Rightarrow> string \<Rightarrow> Message list" where
  "GetMessagesByProfile w profileID =
     map snd (filter (\<lambda>km. MsgProfileID (snd km) = profileID) (Messages (data w)))"

definition LogAction :: "World \<Rightarrow> string \<Rightarrow> string \<Rightarrow> bool \<Rightarrow> string option \<Rightarrow> string option \<times> World" where
  "LogAction w action profileID success err =
     (let log = \<lparr> Action = action, Timestamp = clock w, ProfileID = profileID,
                  Success = success,
                  Error = (case err of None \<Rightarrow> [] | Some e \<Rightarrow> e) \<rparr>
      in save (w\<lparr>data := (data w)\<lparr>ActionLogs := ActionLogs (data w) @ [log]\<rparr>\<rparr>))"

text \<open>The counting loop of \<^verbatim>\<open>GetActionCountSince\<close>, with its counter as accumulator.\<close>

fun count_loop :: "string \<Rightarrow> time \<Rightarrow> ActionLog list \<Rightarrow> int \<Rightarrow> int" where
  "count_loop action since [] count = count"
| "count_loop action since (log # logs) count =
     count_loop action since logs
       (if Action log = action \<and> Success log \<and> After (Timestamp log) since
        then count + 1 else count)"

definition GetActionCountSince :: "World \<Rightarrow> string \<Rightarrow> time \<Rightarrow> int" where
  "GetActionCountSince w action since = count_loop action since (ActionLogs (data w)) 0"

definition GetActionCountToday :: "Location \<Rightarrow> World \<Rightarrow> string \<Rightarrow> int" where
  "GetActionCountToday loc w action = GetActionCountSince w action (startOfDay loc (clock w))"

definition GetActionCountLastHour :: "World \<Rightarrow> string \<Rightarrow> int" where
  "GetActionCountLastHour w action = GetActionCountSince w action (clock w + (- 1) * Hour)"



section \<open>Machine integers\<close>

text \<open>
  Go's \<^verbatim>\<open>int\<close> (on a 64-bit platform) and \<^verbatim>\<open>time.Duration\<close> are 64-bit signed integers
  whose arithmetic wraps around. Values are integers in the range of \<open>in64\<close>; \<open>wrap64\<close>
  is the result of an operation that may leave it. \<^verbatim>\<open>Time.Sub\<close> saturates instead.
\<close>

definition in64 :: "int \<Rightarrow> bool" where
  "in64 k = (- (2 ^ 63) \<le> k \<and> k < 2 ^ 63)"

definition wrap64 :: "int \<Rightarrow> int" where
  "wrap64 k = (k + 2 ^ 63) mod 2 ^ 64 - 2 ^ 63"

definition sat64 :: "int \<Rightarrow> int" where
  "sat64 k = (if k < - (2 ^ 63) then - (2 ^ 63) else if 2 ^ 63 \<le> k then 2 ^ 63 - 1 else k)"

section \<open>Package stealth\<close>

datatype panic = Panic string

text \<open>
  \<^verbatim>\<open>rng.Intn(n)\<close> panics unless \<open>0 < n\<close> and otherwise returns a number from 0 up to
  \<open>n - 1\<close>; \<open>r\<close> is the raw draw of the generator.
\<close>

definition Intn :: "nat \<Rightarrow> int \<Rightarrow> panic + int" where
  "Intn r n = (if n \<le> 0 then Inl (Panic ''invalid argument to Intn'') else Inr (int r mod n))"

definition randomInt :: "nat \<Rightarrow> int \<Rightarrow> int \<Rightarrow> panic + int" where
  "randomInt r min' max' =
     (if min' \<ge> max' then Inr min'
      else case Intn r (wrap64 (wrap64 (max' - min') + 1)) of
             Inl p \<Rightarrow> Inl p
           | Inr k \<Rightarrow> Inr (wrap64 (min' + k)))"

text \<open>
  \<^verbatim>\<open>time.Sleep\<close> returns at once for a duration that is zero or negative. The pauses of
  the humanising layer (\<^verbatim>\<open>RandomDelay\<close>, \<^verbatim>\<open>ThinkingPause\<close>, \<^verbatim>\<open>RandomScroll\<close>,
  \<^verbatim>\<open>WanderMouse\<close>, \<^verbatim>\<open>MoveMouse\<close>, \<^verbatim>\<open>WaitForPageLoad\<close>, \<^verbatim>\<open>TypeHumanLike\<close>) draw random
  numbers and sleep, and touch nothing else: each is a pause whose length the environment
  chooses. Their arguments (coordinates, selectors, text) only shape that length. The
  configured delay bounds are taken to be ones \<^verbatim>\<open>randomInt\<close> accepts.
\<close>

definition Sleep :: "int \<Rightarrow> World \<Rightarrow> World" where
  "Sleep d w = (if d \<le> 0 then w else w\<lparr>clock := clock w + d\<rparr>)"

definition humanPause :: "World \<Rightarrow> World" where
  "humanPause w = w\<lparr>clock := clock w + int (pause_ns w (pauses w)), pauses := Suc (pauses w)\<rparr>"

definition RandomDelay :: "World \<Rightarrow> World" where
  "RandomDelay = humanPause"

definition ThinkingPause :: "World \<Rightarrow> World" where
  "ThinkingPause = humanPause"

definition RandomScroll :: "World \<Rightarrow> World" where
  "RandomScroll = humanPause"

definition WanderMouse :: "World \<Rightarrow> World" where
  "WanderMouse = humanPause"

definition MoveMouse :: "World \<Rightarrow> World" where
  "MoveMouse = humanPause"

definition WaitForPageLoad :: "World \<Rightarrow> World" where
  "WaitForPageLoad = humanPause"

definition TypeHumanLike :: "World \<Rightarrow> World" where
  "TypeHumanLike = humanPause"

text \<open>\<^verbatim>\<open>time.Since(t)\<close> is \<^verbatim>\<open>time.Now().Sub(t)\<close>.\<close>

definition Since :: "World \<Rightarrow> time \<Rightarrow> int" where
  "Since w t = sat64 (clock w - t)"

definition EnforceCooldown :: "World \<Rightarrow> string \<Rightarrow> int \<Rightarrow> World" where
  "EnforceCooldown w actionType minDelaySeconds =
     (if IsZero (lastActionTime w) then w\<lparr>lastActionTime := clock w\<rparr>
      else let elapsed = Since w (lastActionTime w);
               required = wrap64 (minDelaySeconds * Second);
               w1 = (if elapsed < required then Sleep (wrap64 (required - elapsed)) w else w)
           in w1\<lparr>lastActionTime := clock w1\<rparr>)"

text \<open>The fields of \<^verbatim>\<open>StealthConfig\<close> that the business-hours check reads.\<close>

record StealthConfig =
  BusinessHoursEnabled :: bool
  BusinessHoursStart :: string
  BusinessHoursEnd :: string
  BreakTimeEnabled :: bool
  BreakTimeStart :: string
  BreakTimeEnd :: string

text \<open>\<^verbatim>\<open>Format("15:04")\<close>: the local hour and minute, two digits each.\<close>

definition digit :: "nat \<Rightarrow> char" where
  "digit n = ''0123456789'' ! (n mod 10)"

definition Format_1504 :: "nat \<times> nat \<Rightarrow> string" where
  "Format_1504 hm =
     [digit (fst hm div 10), digit (fst hm), CHR '':'', digit (snd hm div 10), digit (snd hm)]"

definition isTimeInRange :: "string \<Rightarrow> string \<Rightarrow> string \<Rightarrow> bool" where
  "isTimeInRange current start end' = (current \<ge> start \<and> current \<le> end')"

definition CheckBusinessHours :: "StealthConfig \<Rightarrow> Location \<Rightarrow> World \<Rightarrow> bool" where
  "CheckBusinessHours config loc w =
     (if \<not> BusinessHoursEnabled config then True
      else let currentTime = Format_1504 (wall_hm loc (clock w));
               inBusinessHours =
                 isTimeInRange currentTime (BusinessHoursStart config) (BusinessHoursEnd config);
               inBreakTime =
                 (if BreakTimeEnabled config
                  then isTimeInRange currentTime (BreakTimeStart config) (BreakTimeEnd config)
                  else False)
           in inBusinessHours \<and> \<not> inBreakTime)"

text \<open>
  The check in the words of its description: always open while the business-hours
  feature is off, and otherwise open inside the business window and outside the break
  window, both windows inclusive.
\<close>

definition inWindow :: "string \<Rightarrow> string \<Rightarrow> string \<Rightarrow> bool" where
  "inWindow now start end' = (start \<le> now \<and> now \<le> end')"

definition isOpen_spec :: "StealthConfig \<Rightarrow> string \<Rightarrow> bool" where
  "isOpen_spec config now =
     (if \<not> BusinessHoursEnabled config then True
      else inWindow now (BusinessHoursStart config) (BusinessHoursEnd config)
           \<and> \<not> inWindow now (BreakTimeStart config) (BreakTimeEnd config))"

section \<open>Package connect\<close>

record LimitsConfig =
  ConnectionsPerDay :: int
  ConnectionsPerHour :: int
  MessagesPerDay :: int
  SearchesPerDay :: int
  CooldownMinutes :: int

text \<open>
  \<^verbatim>\<open>SendConnectionRequest\<close>: the paced steps 1 to 8 in their order, then step 9, which
  writes the new state through the pointer before it saves.
\<close>

definition SendConnectionRequest :: "World \<Rightarrow> addr \<Rightarrow> string option \<times> World" where
  "SendConnectionRequest w profile =
     (let w1 = foldl (\<lambda>v step. step v) w
                 [RandomDelay, ThinkingPause, RandomScroll, WanderMouse, MoveMouse,
                  RandomDelay, ThinkingPause, MoveMouse, RandomDelay, RandomDelay];
          now = clock w1;
          w2 = w1\<lparr>heap := (heap w1)
                  (profile := (heap w1 profile)\<lparr>State := StateRequested, RequestedAt := Some now\<rparr>)\<rparr>
      in case SaveProfile w2 profile of
           (Some err, w3) \<Rightarrow> (Some (''failed to update profile state: '' @ err), w3)
         | (None, w3) \<Rightarrow>
             (None, snd (LogAction w3 ''connection'' (ID (heap w3 profile)) True None)))"

text \<open>The loop of \<^verbatim>\<open>ProcessDailyConnections\<close> over the candidates; it returns \<^verbatim>\<open>sent\<close>.\<close>

fun process_profiles :: "World \<Rightarrow> addr list \<Rightarrow> int \<Rightarrow> int \<Rightarrow> int \<times> World" where
  "process_profiles w [] maxToSend sent = (sent, w)"
| "process_profiles w (profile # rest) maxToSend sent =
     (if sent \<ge> maxToSend then (sent, w)
      else case SendConnectionRequest w profile of
             (Some err, w1) \<Rightarrow>
               process_profiles
                 (snd (LogAction w1 ''connection'' (ID (heap w1 profile)) False (Some err)))
                 rest maxToSend sent
           | (None, w1) \<Rightarrow>
               process_profiles (EnforceCooldown w1 ''connection'' 30) rest maxToSend (sent + 1))"

definition ProcessDailyConnections :: "LimitsConfig \<Rightarrow> Location \<Rightarrow> World \<Rightarrow> string option \<times> World" where
  "ProcessDailyConnections limits loc w =
     (let connectionsToday = GetActionCountToday loc w ''connection'';
          connectionsLastHour = GetActionCountLastHour w ''connection''
      in if connectionsToday \<ge> ConnectionsPerDay limits then (None, w)
         else if connectionsLastHour \<ge> ConnectionsPerHour limits then (None, w)
         else let candidates = GetProfilesByState w StateDiscovered
              in if length candidates = 0 then (None, w)
                 else let remainingDaily = ConnectionsPerDay limits - connectionsToday;
                          remainingHourly = ConnectionsPerHour limits - connectionsLastHour;
                          maxToSend = (if remainingHourly < remainingDaily
                                       then remainingHourly else remainingDaily)
                      in (None, snd (process_profiles w candidates maxToSend 0)))"




section \<open>Package messaging\<close>

record Messenger =
  limits :: LimitsConfig
  templates :: "(string \<times> string) list"

text \<open>
  \<^verbatim>\<open>strings.ReplaceAll\<close> for a pattern that is not empty, which is what
  \<^verbatim>\<open>renderTemplate\<close> passes: matches are replaced from the left and do not overlap.
  The counter is the number of characters of a match still to be dropped.
\<close>

fun replace_from :: "string \<Rightarrow> string \<Rightarrow> nat \<Rightarrow> string \<Rightarrow> string" where
  "replace_from old new k [] = []"
| "replace_from old new (Suc k) (c # cs) = replace_from old new k cs"
| "replace_from old new 0 (c # cs) =
     (if prefix old (c # cs) then new @ replace_from old new (length old - 1) cs
      else c # replace_from old new 0 cs)"

definition ReplaceAll :: "string \<Rightarrow> string \<Rightarrow> string \<Rightarrow> string" where
  "ReplaceAll s old new = replace_from old new 0 s"

definition renderTemplate :: "Messenger \<Rightarrow> string \<Rightarrow> Profile \<Rightarrow> string + string" where
  "renderTemplate m templateName profile =
     (case map_of (templates m) templateName of
        None \<Rightarrow> Inl (''template not found: '' @ templateName)
      | Some template \<Rightarrow>
          Inr (ReplaceAll
                 (ReplaceAll (ReplaceAll template ''{{.Name}}'' (Name profile))
                    ''{{.Title}}'' (Title profile))
                 ''{{.Company}}'' (Company profile)))"

definition navigateToConversation :: "World \<Rightarrow> addr \<Rightarrow> string option \<times> World" where
  "navigateToConversation w profile = (None, WaitForPageLoad (RandomDelay w))"

definition typeAndSend :: "World \<Rightarrow> string \<Rightarrow> string option \<times> World" where
  "typeAndSend w content =
     (None, foldl (\<lambda>v step. step v) w
              [MoveMouse, RandomDelay, ThinkingPause, TypeHumanLike, ThinkingPause,
               MoveMouse, RandomDelay])"

text \<open>Decimal printing (\<^verbatim>\<open>%d\<close>) and \<^verbatim>\<open>UnixNano\<close>, which counts from 1970.\<close>

fun digits :: "nat \<Rightarrow> string" where
  "digits n = (if n < 10 then [digit n] else digits (n div 10) @ [digit n])"

declare digits.simps [simp del]

definition itoa :: "int \<Rightarrow> string" where
  "itoa k = (if k < 0 then CHR ''-'' # digits (nat (- k)) else digits (nat k))"

definition UnixNano :: "time \<Rightarrow> int" where
  "UnixNano t = t - 62135596800 * Second"

definition SendMessage :: "Messenger \<Rightarrow> Location \<Rightarrow> World \<Rightarrow> addr \<Rightarrow> string \<Rightarrow> string option \<times> World" where
  "SendMessage m loc w profile templateName =
     (let messagesToday = GetActionCountToday loc w ''message''
      in if messagesToday \<ge> MessagesPerDay (limits m)
         then (Some (''daily message limit reached: '' @ itoa messagesToday @ ''/''
                       @ itoa (MessagesPerDay (limits m))), w)
         else if State (heap w profile) \<noteq> StateAccepted \<and> State (heap w profile) \<noteq> StateCooledDown
         then (Some (''cannot message profile in state: '' @ State (heap w profile)), w)
         else case renderTemplate m templateName (heap w profile) of
                Inl err \<Rightarrow> (Some (''failed to render template: '' @ err), w)
              | Inr content \<Rightarrow>
                  (case navigateToConversation w profile of
                     (Some err, w1) \<Rightarrow> (Some (''failed to navigate: '' @ err), w1)
                   | (None, w1) \<Rightarrow>
                       (case typeAndSend w1 content of
                          (Some err, w2) \<Rightarrow> (Some (''failed to send message: '' @ err), w2)
                        | (None, w2) \<Rightarrow>
                            (let message = \<lparr> MsgID = ''msg-'' @ itoa (UnixNano (clock w2)),
                                              MsgProfileID = ID (heap w2 profile),
                                              Content = content,
                                              SentAt = clock w2,
                                              Template = templateName \<rparr>;
                                 w3 = snd (SaveMessage w2 message);
                                 w4 = snd (LogAction w3 ''message'' (ID (heap w3 profile)) True None)
                             in (None, w4)))))"

section \<open>The operations that act on the store\<close>




section \<open>The descriptions to compare with\<close>

text \<open>
  The count in the words of its description: the successful records of a category that
  are stamped at the instant or later.
\<close>

definition countSince_spec :: "ActionLog list \<Rightarrow> string \<Rightarrow> time \<Rightarrow> int" where
  "countSince_spec logs category instant =
     int (length (filter (\<lambda>l. Action l = category \<and> Success l \<and> instant \<le> Timestamp l) logs))"

section \<open>Concrete worlds\<close>

text \<open>
  One discovered profile, an empty ledger, a clock at four hours past a UTC midnight, a
  disk that works and pauses of no length.
\<close>

definition profile0 :: Profile where
  "profile0 = \<lparr> ID = ''p1'', Name = ''Ada'', Title = ''Engineer'', Company = ''Acme'',
                ProfileURL = ''https://example.com/in/ada'', State = StateDiscovered,
                DiscoveredAt = 1000, RequestedAt = None, AcceptedAt = None,
                CooledDownAt = None, SearchQuery = ''golang'', Notes = [] \<rparr>"

definition world0 :: World where
  "world0 = \<lparr> heap = (\<lambda>a. profile0),
              data = \<lparr> Profiles = [(''p1'', 0)], Messages = [], ActionLogs = [], LastSync = 0 \<rparr>,
              clock = 100 * Hour, lastActionTime = 0, writes = 0,
              write_result = (\<lambda>n. None), pauses = 0, pause_ns = (\<lambda>n. 0) \<rparr>"

text \<open>The same with two successful requests in the ledger, one of them ten minutes old.\<close>

definition world_busy :: World where
  "world_busy = world0\<lparr>data := (data world0)\<lparr>ActionLogs :=
      [\<lparr> Action = ''connection'', Timestamp = 10 * Hour, ProfileID = ''p0'',
         Success = True, Error = [] \<rparr>,
       \<lparr> Action = ''connection'', Timestamp = 100 * Hour - 10 * Minute, ProfileID = ''p0'',
         Success = True, Error = [] \<rparr>]\<rparr>\<rparr>"

text \<open>A passage was granted twenty seconds ago.\<close>

definition world_spaced :: World where
  "world_spaced = world0\<lparr>lastActionTime := 100 * Hour - 20 * Second\<rparr>"


text \<open>The profile has accepted.\<close>

definition world_accepted :: World where
  "world_accepted = world0\<lparr>heap := (\<lambda>a. profile0\<lparr>State := StateAccepted,
      RequestedAt := Some (50 * Hour), AcceptedAt := Some (60 * Hour)\<rparr>)\<rparr>"

definition limits_default :: LimitsConfig where
  "limits_default = \<lparr> ConnectionsPerDay = 50, ConnectionsPerHour = 10, MessagesPerDay = 30,
                      SearchesPerDay = 20, CooldownMinutes = 60 \<rparr>"


definition limits_one :: LimitsConfig where
  "limits_one = limits_default\<lparr>ConnectionsPerDay := 1, ConnectionsPerHour := 1\<rparr>"

text \<open>The default activity windows of \<^verbatim>\<open>config.Load\<close>.\<close>

definition config_default :: StealthConfig where
  "config_default = \<lparr> BusinessHoursEnabled = True, BusinessHoursStart = ''09:00'',
                      BusinessHoursEnd = ''17:00'', BreakTimeEnabled = True,
                      BreakTimeStart = ''12:00'', BreakTimeEnd = ''13:00'' \<rparr>"

definition messenger0 :: Messenger where
  "messenger0 = \<lparr> limits = limits_default,
                  templates = [(''follow_up_short'',
                     ''Hi {{.Name}}, thanks for connecting! Looking forward to staying in touch.'')] \<rparr>"

section \<open>Frame lemmas\<close>


lemmas time_defs = Hour_def Minute_def Second_def

lemma save_ledger [simp]: "ActionLogs (data (snd (save w))) = ActionLogs (data w)"
  by (simp add: save_def)

lemma SaveProfile_ledger [simp]: "ActionLogs (data (snd (SaveProfile w p))) = ActionLogs (data w)"
  by (simp add: SaveProfile_def)

lemma SaveMessage_ledger [simp]: "ActionLogs (data (snd (SaveMessage w m))) = ActionLogs (data w)"
  by (simp add: SaveMessage_def)

lemma humanPause_data [simp]: "data (humanPause w) = data w"
  by (simp add: humanPause_def)

lemma humanPause_heap [simp]: "heap (humanPause w) = heap w"
  by (simp add: humanPause_def)

lemma humanPause_writes [simp]:
  "writes (humanPause w) = writes w" "write_result (humanPause w) = write_result w"
  by (simp_all add: humanPause_def)

lemma Sleep_data [simp]: "data (Sleep d w) = data w"
  by (simp add: Sleep_def)


section \<open>The ledger\<close>

lemma count_loop_filter:
  "count_loop action since logs count =
     count + int (length (filter (\<lambda>l. Action l = action \<and> Success l \<and> since < Timestamp l) logs))"
  by (induction logs arbitrary: count) (auto simp: After_def)


lemma GetActionCountSince_filter:
  "GetActionCountSince w c t =
     int (length (filter (\<lambda>l. Action l = c \<and> Success l \<and> t < Timestamp l) (ActionLogs (data w))))"
  by (simp add: GetActionCountSince_def count_loop_filter)

lemma LogAction_ledger:
  "ActionLogs (data (snd (LogAction w action profileID success err))) =
     ActionLogs (data w) @
       [\<lparr> Action = action, Timestamp = clock w, ProfileID = profileID, Success = success,
          Error = (case err of None \<Rightarrow> [] | Some e \<Rightarrow> e) \<rparr>]"
  by (simp add: LogAction_def Let_def)



text \<open>
  Claim C2, as the code has it: for every ledger, category and instant,
  \<^verbatim>\<open>GetActionCountSince\<close> is the number of records of that category that succeeded and are
  stamped strictly after the instant (\<^verbatim>\<open>Timestamp.After(since)\<close>); logging a failed
  action changes no count; over an empty ledger the count is 0.
\<close>

theorem GetActionCountSince_counts:
  "GetActionCountSince w c t =
     int (length (filter (\<lambda>l. Action l = c \<and> Success l \<and> t < Timestamp l) (ActionLogs (data w))))
   \<and> GetActionCountSince (snd (LogAction w c' profileID False err)) c t = GetActionCountSince w c t
   \<and> GetActionCountSince (w\<lparr>data := (data w)\<lparr>ActionLogs := []\<rparr>\<rparr>) c t = 0"
  by (simp add: GetActionCountSince_filter LogAction_ledger)

theorem GetActionCountSince_counts_witness:
  "GetActionCountSince world_busy ''connection'' (96 * Hour) = 1
   \<and> GetActionCountSince (snd (LogAction world_busy ''connection'' ''p1'' False (Some ''timeout'')))
        ''connection'' (96 * Hour) = 1"
  using GetActionCountSince_counts [of world_busy "''connection''" "96 * Hour" "''connection''"
      "''p1''" "Some ''timeout''"]
  by (simp add: world_busy_def world0_def time_defs)

text \<open>
  A record stamped exactly at the instant is not counted, although it is stamped at the
  instant or later.
\<close>

theorem countSince_boundary_counterexample:
  "GetActionCountSince (snd (LogAction world0 ''connection'' ''p1'' True None)) ''connection''
       (clock world0)
     \<noteq> countSince_spec (ActionLogs (data (snd (LogAction world0 ''connection'' ''p1'' True None))))
          ''connection'' (clock world0)"
  by (simp add: GetActionCountSince_filter LogAction_ledger countSince_spec_def world0_def)

section \<open>The rate limiter\<close>



text \<open>
  Claim C1: when the daily or the hourly count of successful connection records has
  reached its limit, \<^verbatim>\<open>ProcessDailyConnections\<close> returns \<^verbatim>\<open>nil\<close> and leaves the whole
  world as it was: no profile changes state or timestamps, and the ledger gets no record.
\<close>

theorem ProcessDailyConnections_denied:
  assumes "GetActionCountToday loc w ''connection'' \<ge> ConnectionsPerDay lim
           \<or> GetActionCountLastHour w ''connection'' \<ge> ConnectionsPerHour lim"
  shows "ProcessDailyConnections lim loc w = (None, w)"
  using assms by (auto simp add: ProcessDailyConnections_def Let_def)

theorem ProcessDailyConnections_denied_witness:
  "GetActionCountToday UTC world_busy ''connection'' \<ge> ConnectionsPerDay limits_one
   \<and> State (heap world_busy 0) = StateDiscovered
   \<and> ProcessDailyConnections limits_one UTC world_busy = (None, world_busy)"
proof -
  have h: "GetActionCountToday UTC world_busy ''connection'' \<ge> ConnectionsPerDay limits_one"
    by (simp add: GetActionCountToday_def GetActionCountSince_def After_def world_busy_def
        world0_def limits_one_def limits_default_def UTC_def time_defs)
  have s: "State (heap world_busy 0) = StateDiscovered"
    by (simp add: world_busy_def world0_def profile0_def)
  from h s ProcessDailyConnections_denied [of limits_one UTC world_busy] show ?thesis by blast
qed

section \<open>Spacing\<close>

lemma wrap64_id: "in64 k \<Longrightarrow> wrap64 k = k"
  by (simp add: in64_def wrap64_def)

lemma sat64_nonneg: "0 \<le> k \<Longrightarrow> 0 \<le> sat64 k"
  by (simp add: sat64_def)

text \<open>
  Claim C4, as the code has it: the first call of \<^verbatim>\<open>EnforceCooldown\<close> in a process
  (\<^verbatim>\<open>lastActionTime\<close> still zero) does not sleep, whatever minimum is asked for; a call
  with a minimum of zero or less (down to the least number of seconds whose nanoseconds
  fit 64 bits), on a clock that has not run backwards since the last passage, does not
  sleep either. Both record the passage: \<^verbatim>\<open>lastActionTime\<close> becomes the current time.
\<close>

theorem EnforceCooldown_passes:
  "(lastActionTime w = 0 \<longrightarrow> EnforceCooldown w a m = w\<lparr>lastActionTime := clock w\<rparr>)
   \<and> (lastActionTime w \<le> clock w \<and> - 9223372036 \<le> m \<and> m \<le> 0 \<longrightarrow>
        EnforceCooldown w a m = w\<lparr>lastActionTime := clock w\<rparr>)"
proof (intro conjI impI)
  assume "lastActionTime w = 0"
  then show "EnforceCooldown w a m = w\<lparr>lastActionTime := clock w\<rparr>"
    by (simp add: EnforceCooldown_def IsZero_def)
next
  assume h: "lastActionTime w \<le> clock w \<and> - 9223372036 \<le> m \<and> m \<le> 0"
  then have "in64 (m * Second)"
    by (simp add: in64_def Second_def)
  then have req: "wrap64 (m * Second) = m * Second"
    by (rule wrap64_id)
  from h have "m * Second \<le> 0"
    by (simp add: Second_def mult_le_0_iff)
  moreover from h have "0 \<le> Since w (lastActionTime w)"
    by (simp add: Since_def sat64_nonneg)
  ultimately have "\<not> Since w (lastActionTime w) < wrap64 (m * Second)"
    using req by simp
  then show "EnforceCooldown w a m = w\<lparr>lastActionTime := clock w\<rparr>"
    by (simp add: EnforceCooldown_def Let_def)
qed

theorem EnforceCooldown_passes_witness:
  "lastActionTime world0 = 0
   \<and> EnforceCooldown world0 ''demo'' 5 = world0\<lparr>lastActionTime := clock world0\<rparr>
   \<and> lastActionTime world_spaced \<le> clock world_spaced
   \<and> EnforceCooldown world_spaced ''demo'' 0 = world_spaced\<lparr>lastActionTime := clock world_spaced\<rparr>"
  using EnforceCooldown_passes [of world0 "''demo''" 5]
    EnforceCooldown_passes [of world_spaced "''demo''" 0]
  by (simp add: world0_def world_spaced_def time_defs)

text \<open>
  A call with minimum 0 is no no-op: it moves \<^verbatim>\<open>lastActionTime\<close>, and a later call with
  minimum 30, eleven seconds on, sleeps where it would have passed at once.
\<close>

theorem EnforceCooldown_zero_counterexample:
  "lastActionTime (EnforceCooldown world_spaced ''demo'' 0) \<noteq> lastActionTime world_spaced
   \<and> clock (EnforceCooldown (Sleep (11 * Second) (EnforceCooldown world_spaced ''demo'' 0))
              ''connection'' 30)
       \<noteq> clock (EnforceCooldown (Sleep (11 * Second) world_spaced) ''connection'' 30)"
  by (simp add: EnforceCooldown_def Let_def Since_def sat64_def wrap64_def IsZero_def Sleep_def
      world_spaced_def world0_def time_defs)

section \<open>Delays\<close>

lemma randomInt_fallback: "max' \<le> min' \<Longrightarrow> randomInt r min' max' = Inr min'"
  by (simp add: randomInt_def)

lemma randomInt_in_range:
  assumes "in64 min'" "in64 max'" "min' < max'" "max' - min' < 2 ^ 63 - 1"
  shows "\<exists>k. randomInt r min' max' = Inr k \<and> min' \<le> k \<and> k \<le> max'"
proof -
  let ?n = "max' - min' + 1"
  from assms have a: "in64 (max' - min')" "in64 ?n"
    by (simp_all add: in64_def)
  then have n: "wrap64 (wrap64 (max' - min') + 1) = ?n"
    by (simp add: wrap64_id)
  from assms have pos: "0 < ?n" by simp
  have b: "0 \<le> int r mod ?n" "int r mod ?n < ?n"
    using pos_mod_sign [OF pos] pos_mod_bound [OF pos] by blast+
  with assms have "in64 (min' + int r mod ?n)"
    unfolding in64_def by arith
  then have "wrap64 (min' + int r mod ?n) = min' + int r mod ?n"
    by (rule wrap64_id)
  moreover from b have "min' \<le> min' + int r mod ?n" "min' + int r mod ?n \<le> max'"
    by arith+
  ultimately show ?thesis
    using n pos assms(3) by (simp add: randomInt_def Intn_def)
qed

text \<open>
  Claim C9 fails on the code at bounds that lie further apart than a 64-bit integer can
  count: for \<^verbatim>\<open>randomInt(0, math.MaxInt64)\<close> the width \<^verbatim>\<open>max-min+1\<close> wraps around to
  the least integer, and \<^verbatim>\<open>rng.Intn\<close> panics on it, whatever the generator would draw.
\<close>

theorem randomInt_overflow_panics:
  "randomInt r 0 9223372036854775807 = Inl (Panic ''invalid argument to Intn'')"
  by (simp add: randomInt_def Intn_def wrap64_def)

section \<open>Business hours\<close>

text \<open>
  Claim C5, as the code has it: \<^verbatim>\<open>CheckBusinessHours\<close> is true when the business-hours
  feature is off, and otherwise exactly when the current \<^verbatim>\<open>HH:MM\<close> string lies in the
  business window and not, while the break feature is on, in the break window; the
  windows include both bounds and compare strings lexicographically. A break window whose
  feature is off is ignored.
\<close>

theorem CheckBusinessHours_open:
  "CheckBusinessHours config loc w =
     (\<not> BusinessHoursEnabled config
      \<or> inWindow (Format_1504 (wall_hm loc (clock w)))
            (BusinessHoursStart config) (BusinessHoursEnd config)
        \<and> \<not> (BreakTimeEnabled config
              \<and> inWindow (Format_1504 (wall_hm loc (clock w)))
                  (BreakTimeStart config) (BreakTimeEnd config)))"
  by (simp add: CheckBusinessHours_def Let_def isTimeInRange_def inWindow_def)

text \<open>With the default windows: open at 11:59, closed at 12:30 and at 17:01.\<close>

theorem CheckBusinessHours_open_witness:
  "CheckBusinessHours config_default UTC (world0\<lparr>clock := 11 * Hour + 59 * Minute\<rparr>)
   \<and> \<not> CheckBusinessHours config_default UTC (world0\<lparr>clock := 12 * Hour + 30 * Minute\<rparr>)
   \<and> \<not> CheckBusinessHours config_default UTC (world0\<lparr>clock := 17 * Hour + 1 * Minute\<rparr>)
   \<and> CheckBusinessHours (config_default\<lparr>BusinessHoursEnabled := False\<rparr>) UTC
        (world0\<lparr>clock := 3 * Hour\<rparr>)"
  using CheckBusinessHours_open [of config_default UTC "world0\<lparr>clock := 11 * Hour + 59 * Minute\<rparr>"]
    CheckBusinessHours_open [of config_default UTC "world0\<lparr>clock := 12 * Hour + 30 * Minute\<rparr>"]
    CheckBusinessHours_open [of config_default UTC "world0\<lparr>clock := 17 * Hour + 1 * Minute\<rparr>"]
    CheckBusinessHours_open [of "config_default\<lparr>BusinessHoursEnabled := False\<rparr>" UTC
      "world0\<lparr>clock := 3 * Hour\<rparr>"]
  by (simp add: config_default_def inWindow_def Format_1504_def UTC_def digit_def time_defs)

text \<open>
  With the break feature switched off the check passes at 12:30, inside the configured
  break window.
\<close>

theorem isOpen_break_disabled_counterexample:
  "CheckBusinessHours (config_default\<lparr>BreakTimeEnabled := False\<rparr>) UTC
       (world0\<lparr>clock := 12 * Hour + 30 * Minute\<rparr>)
     \<noteq> isOpen_spec (config_default\<lparr>BreakTimeEnabled := False\<rparr>)
          (Format_1504 (wall_hm UTC (clock (world0\<lparr>clock := 12 * Hour + 30 * Minute\<rparr>))))"
  by (simp add: CheckBusinessHours_def isOpen_spec_def Let_def isTimeInRange_def
      config_default_def inWindow_def Format_1504_def UTC_def digit_def time_defs)

section \<open>Connection requests\<close>














section \<open>The ledger only grows\<close>



section \<open>Messages\<close>

text \<open>
  Claim C10: \<^verbatim>\<open>SendMessage\<close> refuses a profile whose state is neither accepted nor
  cooled_down: it returns an error and leaves the world as it was, so no message record is
  made and no action is logged. When it returns \<^verbatim>\<open>nil\<close>, the profile is in one of the
  two states and the count of today's messages is below the daily message limit.
\<close>

theorem SendMessage_state_check:
  "(State (heap w p) \<noteq> StateAccepted \<and> State (heap w p) \<noteq> StateCooledDown \<longrightarrow>
      fst (SendMessage m loc w p t) \<noteq> None
      \<and> snd (SendMessage m loc w p t) = w
      \<and> Messages (data (snd (SendMessage m loc w p t))) = Messages (data w)
      \<and> ActionLogs (data (snd (SendMessage m loc w p t))) = ActionLogs (data w))
   \<and> (fst (SendMessage m loc w p t) = None \<longrightarrow>
        (State (heap w p) = StateAccepted \<or> State (heap w p) = StateCooledDown)
        \<and> GetActionCountToday loc w ''message'' < MessagesPerDay (limits m))"
  by (auto simp add: SendMessage_def Let_def navigateToConversation_def typeAndSend_def
      split: sum.splits if_splits)

theorem SendMessage_state_check_witness:
  "State (heap world0 0) \<noteq> StateAccepted \<and> State (heap world0 0) \<noteq> StateCooledDown
   \<and> fst (SendMessage messenger0 UTC world0 0 ''follow_up_short'') \<noteq> None
   \<and> snd (SendMessage messenger0 UTC world0 0 ''follow_up_short'') = world0
   \<and> fst (SendMessage messenger0 UTC world_accepted 0 ''follow_up_short'') = None
   \<and> State (heap world_accepted 0) = StateAccepted
   \<and> GetActionCountToday UTC world_accepted ''message'' < MessagesPerDay (limits messenger0)"
proof -
  have a: "State (heap world0 0) \<noteq> StateAccepted \<and> State (heap world0 0) \<noteq> StateCooledDown"
    by (simp add: world0_def profile0_def StateDiscovered_def StateAccepted_def StateCooledDown_def)
  have b: "fst (SendMessage messenger0 UTC world_accepted 0 ''follow_up_short'') = None"
    by (simp add: SendMessage_def Let_def navigateToConversation_def typeAndSend_def
        renderTemplate_def GetActionCountToday_def GetActionCountSince_def messenger0_def
        limits_default_def world_accepted_def world0_def profile0_def StateAccepted_def)
  have c: "State (heap world_accepted 0) = StateAccepted"
    by (simp add: world_accepted_def)
  from a b c SendMessage_state_check [of world0 0 messenger0 UTC "''follow_up_short''"]
    SendMessage_state_check [of world_accepted 0 messenger0 UTC "''follow_up_short''"]
  show ?thesis by blast
qed

end
